theory Spec2Isabelle
  imports Complex_Main "HOL-Library.Stream"
begin

section \<open>Floating-point values\<close>

text \<open>
  The program computes with 64-bit floats. They are modelled as the real numbers together
  with the one feature of IEEE 754 that \<^verbatim>\<open>np.copysign\<close> can observe: the sign of
  zero. \<open>Flt r\<close> is the float of value \<open>r\<close> (\<open>Flt 0\<close> is \<^verbatim>\<open>+0.0\<close>) and
  \<open>NegZero\<close> is \<^verbatim>\<open>-0.0\<close>. Arithmetic is exact: rounding, overflow to infinity and
  NaN are outside the model. The sign of a zero result follows IEEE 754 in the default
  rounding mode.
\<close>

datatype fnum = NegZero | Flt real

fun fval :: "fnum \<Rightarrow> real" where
  "fval NegZero = 0"
| "fval (Flt r) = r"

fun signbit :: "fnum \<Rightarrow> bool" where
  "signbit NegZero = True"
| "signbit (Flt r) = (r < 0)"

text \<open>Python's \<^verbatim>\<open>==\<close> on floats compares values: \<^verbatim>\<open>-0.0 == 0.0\<close>.\<close>

definition feq :: "fnum \<Rightarrow> fnum \<Rightarrow> bool" where
  "feq x y = (fval x = fval y)"

text \<open>Unary minus flips the sign bit, also of a zero.\<close>

fun fneg :: "fnum \<Rightarrow> fnum" where
  "fneg NegZero = Flt 0"
| "fneg (Flt r) = (if r = 0 then NegZero else Flt (- r))"

text \<open>A sum that is zero is \<^verbatim>\<open>-0.0\<close> only when both summands are \<^verbatim>\<open>-0.0\<close>.\<close>

fun fadd :: "fnum \<Rightarrow> fnum \<Rightarrow> fnum" where
  "fadd NegZero NegZero = NegZero"
| "fadd x y = Flt (fval x + fval y)"

definition fsub :: "fnum \<Rightarrow> fnum \<Rightarrow> fnum" where
  "fsub x y = fadd x (fneg y)"

text \<open>The sign of a zero product is the exclusive or of the factors' signs.\<close>

definition fmul :: "fnum \<Rightarrow> fnum \<Rightarrow> fnum" where
  "fmul x y =
     (if fval x * fval y = 0
      then (if signbit x \<noteq> signbit y then NegZero else Flt 0)
      else Flt (fval x * fval y))"

text \<open>\<^verbatim>\<open>np.abs\<close> clears the sign bit.\<close>

definition np_abs :: "fnum \<Rightarrow> fnum" where
  "np_abs x = Flt \<bar>fval x\<bar>"

text \<open>
  \<^verbatim>\<open>np.sqrt\<close> keeps the sign of a zero. The program applies it to the result of
  \<^verbatim>\<open>np.abs\<close> only, so the NaN that numpy gives for a negative argument is never
  produced.
\<close>

fun np_sqrt :: "fnum \<Rightarrow> fnum" where
  "np_sqrt NegZero = NegZero"
| "np_sqrt (Flt r) = Flt (sqrt r)"

text \<open>\<^verbatim>\<open>np.copysign(m, x)\<close>: the magnitude of \<open>m\<close> with the sign bit of \<open>x\<close>.\<close>

definition np_copysign :: "fnum \<Rightarrow> fnum \<Rightarrow> fnum" where
  "np_copysign m x = (if signbit x then fneg (np_abs m) else np_abs m)"

text \<open>
  Python's true division of two ints, at a divisor that is not zero (the single call
  site is guarded by \<^verbatim>\<open>n_hist > 0\<close>).
\<close>

definition int_truediv :: "int \<Rightarrow> int \<Rightarrow> fnum" where
  "int_truediv p q =
     (if p = 0 \<and> q < 0 then NegZero else Flt (real_of_int p / real_of_int q))"

section \<open>The recurrence engine\<close>

type_synonym point = "fnum \<times> fnum"

text \<open>
  \<^verbatim>\<open>hop_along_eq(xy, a, b, c)\<close>: one iteration. The array \<^verbatim>\<open>xy\<close> of two floats
  is a pair, \<^verbatim>\<open>xy[0]\<close> its first and \<^verbatim>\<open>xy[1]\<close> its second component.
\<close>

definition hop_along_eq :: "point \<Rightarrow> fnum \<Rightarrow> fnum \<Rightarrow> fnum \<Rightarrow> point" where
  "hop_along_eq xy a b c =
     (let sqrt_x = np_sqrt (np_abs (fsub (fmul b (fst xy)) c));
          f_x = fneg (np_copysign sqrt_x (fst xy));
          new_x = fadd (snd xy) f_x;
          new_y = fsub a (fst xy)
      in (new_x, new_y))"

datatype error = ValueError | IndexError

text \<open>
  \<^verbatim>\<open>np.zeros((n, 2))\<close>: \<open>n\<close> rows of two zeros. A negative dimension raises
  \<^verbatim>\<open>ValueError\<close>, Python's exception for an invalid argument.
\<close>

definition np_zeros :: "int \<Rightarrow> error + point list" where
  "np_zeros n = (if n < 0 then Inl ValueError else Inr (replicate (nat n) (Flt 0, Flt 0)))"

text \<open>
  The loop \<^verbatim>\<open>for index in range(n_iters)\<close> of \<^verbatim>\<open>hop_along_for_n\<close>, from the
  iteration \<open>index\<close> on: each pass binds \<^verbatim>\<open>xy\<close> to the next point and writes its two
  coordinates into row \<open>index\<close> of \<^verbatim>\<open>ret\<close>.
\<close>

function for_n_loop ::
  "fnum \<Rightarrow> fnum \<Rightarrow> fnum \<Rightarrow> nat \<Rightarrow> nat \<Rightarrow> point \<Rightarrow> point list \<Rightarrow> point list" where
  "for_n_loop a b c n_iters index xy ret =
     (if index < n_iters
      then (let xy' = hop_along_eq xy a b c;
                ret0 = ret[index := (fst xy', snd (ret ! index))];
                ret1 = ret0[index := (fst (ret0 ! index), snd xy')]
            in for_n_loop a b c n_iters (Suc index) xy' ret1)
      else ret)"
  by pat_completeness auto
termination
  by (relation "measure (\<lambda>(a, b, c, n_iters, index, xy, ret). n_iters - index)") auto

declare for_n_loop.simps [simp del]

text \<open>
  \<^verbatim>\<open>hop_along_for_n(a, b, c, n_iters, xy_init=None)\<close>. The seed \<^verbatim>\<open>xy_init\<close> is only
  read: the loop rebinds the local \<^verbatim>\<open>xy\<close> to the fresh array that
  \<^verbatim>\<open>hop_along_eq\<close> returns and never writes into the caller's array.
\<close>

definition hop_along_for_n ::
  "fnum \<Rightarrow> fnum \<Rightarrow> fnum \<Rightarrow> int \<Rightarrow> point option \<Rightarrow> error + point list" where
  "hop_along_for_n a b c n_iters xy_init =
     (case np_zeros n_iters of
        Inl e \<Rightarrow> Inl e
      | Inr ret \<Rightarrow>
          (let xy = (case xy_init of None \<Rightarrow> (Flt 0, Flt 0) | Some p \<Rightarrow> p)
           in Inr (for_n_loop a b c (nat n_iters) 0 xy ret)))"

section \<open>The parameter randomizer\<close>

text \<open>
  \<^verbatim>\<open>np.random.uniform(low, high)\<close> returns \<^verbatim>\<open>low + (high - low) * u\<close> for the next
  sample \<open>u\<close> of the process-wide generator, which lies in \<open>[0, 1)\<close>; it checks nothing
  about the order of its bounds. The generator is the stream of the samples it will
  give, and a draw returns the rest of the stream. The arithmetic is the exact one of
  this model: in doubles the sum is rounded (a draw can round to \<^verbatim>\<open>high\<close> itself), and
  numpy raises \<^verbatim>\<open>OverflowError\<close> when \<^verbatim>\<open>high - low\<close> overflows, which no finite exact
  difference does.
\<close>

definition np_random_uniform :: "fnum \<Rightarrow> fnum \<Rightarrow> real stream \<Rightarrow> fnum \<times> real stream" where
  "np_random_uniform low high rng =
     (fadd low (fmul (fsub high low) (Flt (shd rng))), stl rng)"

text \<open>\<^verbatim>\<open>random_abc(min_val, max_val)\<close>: three draws, in the order a, b, c.\<close>

definition random_abc ::
  "fnum \<Rightarrow> fnum \<Rightarrow> real stream \<Rightarrow> (fnum \<times> fnum \<times> fnum) \<times> real stream" where
  "random_abc min_val max_val rng =
     (let (a, rng1) = np_random_uniform min_val max_val rng;
          (b, rng2) = np_random_uniform min_val max_val rng1;
          (c, rng3) = np_random_uniform min_val max_val rng2
      in ((a, b, c), rng3))"

text \<open>The call \<^verbatim>\<open>random_abc()\<close>, with the defaults \<^verbatim>\<open>-10.0\<close> and \<^verbatim>\<open>+10.0\<close>.\<close>

definition random_abc_default :: "real stream \<Rightarrow> (fnum \<times> fnum \<times> fnum) \<times> real stream" where
  "random_abc_default rng = random_abc (Flt (- 10)) (Flt 10) rng"

text \<open>The samples of a generator lie in \<open>[0, 1)\<close>.\<close>

definition unit_samples :: "real stream \<Rightarrow> bool" where
  "unit_samples rng = (\<forall>i. 0 \<le> rng !! i \<and> rng !! i < 1)"

section \<open>The frame loop\<close>

text \<open>
  The arguments of \<^verbatim>\<open>plot_hop_along\<close> that stay fixed while it runs
  (\<^verbatim>\<open>pause_time\<close> only reaches the renderer's \<^verbatim>\<open>plt.pause\<close>).
\<close>

record config =
  n_iters :: int
  n_hist :: int
  n_reset :: int
  alpha_init :: fnum

text \<open>
  The variables the loop updates: the parameters \<^verbatim>\<open>a\<close>, \<^verbatim>\<open>b\<close>, \<^verbatim>\<open>c\<close>, the array
  \<^verbatim>\<open>values\<close> (of shape \<open>(2, n)\<close>, here the list of its \<open>n\<close> columns), the list
  \<^verbatim>\<open>history\<close>, the counter \<^verbatim>\<open>full_iters\<close>, and the random generator.
\<close>

record run_state =
  param_a :: fnum
  param_b :: fnum
  param_c :: fnum
  values_arr :: "point list"
  history :: "point list list"
  full_iters :: int
  rng :: "real stream"

definition params :: "run_state \<Rightarrow> fnum \<times> fnum \<times> fnum" where
  "params s = (param_a s, param_b s, param_c s)"

text \<open>A call of \<^verbatim>\<open>plt.scatter\<close>: the points drawn and their \<^verbatim>\<open>alpha\<close>.\<close>

type_synonym scatter = "point list \<times> fnum"

text \<open>\<^verbatim>\<open>values[:, -1]\<close>: the last column; \<^verbatim>\<open>IndexError\<close> when there is none.\<close>

definition last_column :: "point list \<Rightarrow> error + point" where
  "last_column vs = (if vs = [] then Inl IndexError else Inr (last vs))"

text \<open>Python's slice \<^verbatim>\<open>xs[-n:]\<close>: a negative start counts from the end, clamped.\<close>

definition slice_last :: "int \<Rightarrow> 'a list \<Rightarrow> 'a list" where
  "slice_last n xs =
     (let len = int (length xs);
          start = (if - n < 0 then max 0 (- n + len) else min (- n) len)
      in drop (nat start) xs)"

text \<open>
  The loop over \<^verbatim>\<open>enumerate(history)\<close>: one scatter call per batch, with
  \<^verbatim>\<open>alpha = (index + 1) / n_hist * alpha_init\<close>.
\<close>

definition history_scatter :: "config \<Rightarrow> point list list \<Rightarrow> scatter list" where
  "history_scatter cfg hist =
     map (\<lambda>(index, arr).
            (arr, fmul (int_truediv (int index + 1) (n_hist cfg)) (alpha_init cfg)))
         (enumerate 0 hist)"

text \<open>
  One pass of the \<^verbatim>\<open>while True\<close> loop: the scatter calls it makes before
  \<^verbatim>\<open>plt.clf()\<close>, and the state it leaves.
\<close>

definition frame :: "config \<Rightarrow> run_state \<Rightarrow> error + (scatter list \<times> run_state)" where
  "frame cfg s =
     (case last_column (values_arr s) of
        Inl e \<Rightarrow> Inl e
      | Inr seed \<Rightarrow>
          (case hop_along_for_n (param_a s) (param_b s) (param_c s) (n_iters cfg) (Some seed) of
             Inl e \<Rightarrow> Inl e
           | Inr vals \<Rightarrow>
               (let positive_reset = (n_reset cfg > 0);
                    positive_hist = (n_hist cfg > 0);
                    draws = (vals, alpha_init cfg) #
                      (if positive_hist then history_scatter cfg (history s) else []);
                    hist = (if positive_hist
                            then slice_last (n_hist cfg) (history s @ [vals])
                            else history s);
                    s1 = s\<lparr>values_arr := vals, history := hist,
                           full_iters := full_iters s + 1\<rparr>
                in if positive_reset \<and> full_iters s1 mod n_reset cfg = 0
                   then (let (abc, rng1) = random_abc_default (rng s1)
                         in Inr (draws,
                              s1\<lparr>values_arr := [(Flt 0, Flt 0)],
                                 param_a := fst abc,
                                 param_b := fst (snd abc),
                                 param_c := snd (snd abc),
                                 rng := rng1\<rparr>))
                   else Inr (draws, s1))))"

text \<open>The state on entry to the loop.\<close>

definition init_state :: "fnum \<Rightarrow> fnum \<Rightarrow> fnum \<Rightarrow> real stream \<Rightarrow> run_state" where
  "init_state a b c g =
     \<lparr>param_a = a, param_b = b, param_c = c, values_arr = [(Flt 0, Flt 0)],
      history = [], full_iters = 0, rng = g\<rparr>"

text \<open>
  The loop never ends by itself; \<open>run_frames cfg k s\<close> is the state that \<open>k\<close> passes
  leave, or the exception that stopped the loop before.
\<close>

primrec run_frames :: "config \<Rightarrow> nat \<Rightarrow> run_state \<Rightarrow> error + run_state" where
  "run_frames cfg 0 s = Inr s"
| "run_frames cfg (Suc k) s =
     (case run_frames cfg k s of
        Inl e \<Rightarrow> Inl e
      | Inr s' \<Rightarrow> (case frame cfg s' of Inl e \<Rightarrow> Inl e | Inr (draws, s'') \<Rightarrow> Inr s''))"

text \<open>\<^verbatim>\<open>plot_hop_along(a, b, c, n_iters, n_hist=.., n_reset=.., alpha_init=..)\<close> after \<open>k\<close> frames.\<close>

definition plot_hop_along ::
  "config \<Rightarrow> fnum \<Rightarrow> fnum \<Rightarrow> fnum \<Rightarrow> real stream \<Rightarrow> nat \<Rightarrow> error + run_state" where
  "plot_hop_along cfg a b c g k = run_frames cfg k (init_state a b c g)"

text \<open>The scatter calls of the frame after the first \<open>k\<close>.\<close>

definition frame_draws ::
  "config \<Rightarrow> fnum \<Rightarrow> fnum \<Rightarrow> fnum \<Rightarrow> real stream \<Rightarrow> nat \<Rightarrow> error + scatter list" where
  "frame_draws cfg a b c g k =
     (case plot_hop_along cfg a b c g k of
        Inl e \<Rightarrow> Inl e
      | Inr s \<Rightarrow> (case frame cfg s of Inl e \<Rightarrow> Inl e | Inr (draws, s') \<Rightarrow> Inr draws))"

text \<open>
  The renderer's check of an opacity: \<^verbatim>\<open>plt.scatter(..., alpha=alpha)\<close> raises
  \<^verbatim>\<open>ValueError\<close> for an \<^verbatim>\<open>alpha\<close> outside \<open>[0, 1]\<close>. Nothing else of matplotlib is
  modelled.
\<close>

definition plt_scatter :: "scatter \<Rightarrow> error + unit" where
  "plt_scatter d =
     (if 0 \<le> fval (snd d) \<and> fval (snd d) \<le> 1 then Inr () else Inl ValueError)"

text \<open>The scatter calls of a frame, made in their order; the first that raises ends them.\<close>

fun scatter_all :: "scatter list \<Rightarrow> error + unit" where
  "scatter_all [] = Inr ()"
| "scatter_all (d # ds) = (case plt_scatter d of Inl e \<Rightarrow> Inl e | Inr u \<Rightarrow> scatter_all ds)"

text \<open>
  One pass of the loop with the renderer's check. The exceptions of \<open>frame\<close> come from
  the two lines before the first \<^verbatim>\<open>plt.scatter\<close>, and the variables are updated after
  the last one, so the pass is \<open>frame\<close> followed by its scatter calls.
\<close>

definition frame_rendered ::
  "config \<Rightarrow> run_state \<Rightarrow> error + (scatter list \<times> run_state)" where
  "frame_rendered cfg s =
     (case frame cfg s of
        Inl e \<Rightarrow> Inl e
      | Inr (draws, s') \<Rightarrow>
          (case scatter_all draws of Inl e \<Rightarrow> Inl e | Inr u \<Rightarrow> Inr (draws, s')))"

section \<open>The specification's formulas\<close>

text \<open>
  The step as the specification words it, on real numbers: \<open>sign(0)\<close> is \<open>+1\<close>.
\<close>

definition spec_sign :: "real \<Rightarrow> real" where
  "spec_sign x = (if x < 0 then - 1 else 1)"

definition spec_step :: "real \<times> real \<Rightarrow> real \<Rightarrow> real \<Rightarrow> real \<Rightarrow> real \<times> real" where
  "spec_step xy a b c =
     (snd xy + (- spec_sign (fst xy) * sqrt \<bar>b * fst xy - c\<bar>), a - fst xy)"

text \<open>The sign that \<^verbatim>\<open>np.copysign\<close> reads off a float: its sign bit.\<close>

definition bit_sign :: "fnum \<Rightarrow> real" where
  "bit_sign x = (if signbit x then - 1 else 1)"

definition point_val :: "point \<Rightarrow> real \<times> real" where
  "point_val p = (fval (fst p), fval (snd p))"

text \<open>
  The opacity as the specification words it: \<open>(rank + 1) / n_hist * alpha_init\<close>, with
  \<open>rank\<close> the position counted from 1 at the oldest kept batch.
\<close>

definition spec_opacity :: "nat \<Rightarrow> int \<Rightarrow> real \<Rightarrow> real" where
  "spec_opacity rank nh al = (real rank + 1) / real_of_int nh * al"

text \<open>
  The randomizer as the specification words it: an inverted range fails with
  InvalidArgument, otherwise three draws.
\<close>

datatype spec_error = InvalidArgument

definition spec_random_params ::
  "fnum \<Rightarrow> fnum \<Rightarrow> real stream \<Rightarrow> spec_error + (fnum \<times> fnum \<times> fnum)" where
  "spec_random_params min_val max_val g =
     (if fval max_val < fval min_val then Inl InvalidArgument
      else Inr (fst (random_abc min_val max_val g)))"

section \<open>Float arithmetic\<close>

lemma fval_fneg: "fval (fneg x) = - fval x"
  by (cases x) simp_all

lemma fval_fadd: "fval (fadd x y) = fval x + fval y"
  by (cases x; cases y) simp_all

lemma fval_fsub: "fval (fsub x y) = fval x - fval y"
  by (simp add: fsub_def fval_fadd fval_fneg)

lemma fval_fmul: "fval (fmul x y) = fval x * fval y"
  by (simp add: fmul_def)

lemma fval_np_abs: "fval (np_abs x) = \<bar>fval x\<bar>"
  by (simp add: np_abs_def)

lemma fval_np_sqrt: "fval (np_sqrt x) = sqrt (fval x)"
  by (cases x) simp_all

lemma fval_np_copysign: "fval (np_copysign m x) = bit_sign x * \<bar>fval m\<bar>"
  by (simp add: np_copysign_def bit_sign_def fval_fneg fval_np_abs)

lemma point_val_hop_along_eq:
  "point_val (hop_along_eq (x, y) a b c) =
     (fval y + (- bit_sign x * sqrt \<bar>fval b * fval x - fval c\<bar>), fval a - fval x)"
  by (simp add: point_val_def hop_along_eq_def Let_def fval_fadd fval_fsub fval_fmul
      fval_fneg fval_np_copysign fval_np_sqrt fval_np_abs)

lemma bit_sign_spec: "x \<noteq> NegZero \<Longrightarrow> bit_sign x = spec_sign (fval x)"
  by (cases x) (simp_all add: bit_sign_def spec_sign_def)

lemma hop_example_first: "hop_along_eq (Flt 0, Flt 0) (Flt 1) (Flt 1) (Flt 0) = (Flt 0, Flt 1)"
  by (simp add: hop_along_eq_def Let_def fsub_def fmul_def np_abs_def np_copysign_def)

lemma hop_example_second: "hop_along_eq (Flt 0, Flt 1) (Flt 1) (Flt 1) (Flt 0) = (Flt 1, Flt 1)"
  by (simp add: hop_along_eq_def Let_def fsub_def fmul_def np_abs_def np_copysign_def)

lemma hop_example_third: "hop_along_eq (Flt 1, Flt 1) (Flt 1) (Flt 1) (Flt 0) = (Flt 0, Flt 0)"
  by (simp add: hop_along_eq_def Let_def fsub_def fmul_def np_abs_def np_copysign_def)

section \<open>The step\<close>

text \<open>
  Claim C1, as the code has it. For every point \<open>(x, y)\<close> and parameters \<open>a\<close>, \<open>b\<close>,
  \<open>c\<close>, \<^verbatim>\<open>hop_along_eq\<close> returns \<open>(y + f x, a - x)\<close> with
  \<open>f x = - s * sqrt \<bar>b * x - c\<bar>\<close>, where \<open>s\<close> is read off the sign bit of \<open>x\<close>: \<open>+1\<close>
  for a positive \<open>x\<close> and for \<^verbatim>\<open>+0.0\<close>, \<open>-1\<close> for a negative \<open>x\<close> and for
  \<^verbatim>\<open>-0.0\<close>. So the result is the specification's step at every \<open>x\<close> but \<^verbatim>\<open>-0.0\<close>,
  and the step from \<open>(0.0, 0.0)\<close> with \<open>a = 1\<close>, \<open>b = 1\<close>, \<open>c = 0\<close> is \<open>(0.0, 1.0)\<close>.
\<close>

theorem hop_along_eq_sign_bit:
  "point_val (hop_along_eq (x, y) a b c) =
     (fval y + (- bit_sign x * sqrt \<bar>fval b * fval x - fval c\<bar>), fval a - fval x)
   \<and> (x \<noteq> NegZero \<longrightarrow>
        point_val (hop_along_eq (x, y) a b c) =
          spec_step (fval x, fval y) (fval a) (fval b) (fval c))
   \<and> hop_along_eq (Flt 0, Flt 0) (Flt 1) (Flt 1) (Flt 0) = (Flt 0, Flt 1)"
  by (simp add: point_val_hop_along_eq bit_sign_spec spec_step_def hop_example_first)

theorem hop_along_eq_sign_bit_witness:
  "Flt 1 \<noteq> NegZero \<and>
   point_val (hop_along_eq (Flt 1, Flt 1) (Flt 1) (Flt 1) (Flt 0)) = spec_step (1, 1) 1 1 0
   \<and> spec_step (1, 1) 1 1 0 = (0, 0)"
  using hop_along_eq_sign_bit [of "Flt 1" "Flt 1" "Flt 1" "Flt 1" "Flt 0"]
  by (simp add: spec_step_def spec_sign_def bit_sign_def)

text \<open>
  The specification's step takes \<open>sign(0)\<close> as \<open>+1\<close> at every zero. At \<open>x\<close> =
  \<^verbatim>\<open>-0.0\<close>, \<open>y = 0\<close>, \<open>a = b = c = 1\<close> the code takes the sign \<open>-1\<close> from the sign bit
  and returns \<open>(1, 1)\<close>, where the specification's formula gives \<open>(-1, 1)\<close>.
\<close>

theorem hop_along_eq_neg_zero_counterexample:
  "point_val (hop_along_eq (NegZero, Flt 0) (Flt 1) (Flt 1) (Flt 1)) = (1, 1)
   \<and> spec_step (fval NegZero, fval (Flt 0)) (fval (Flt 1)) (fval (Flt 1)) (fval (Flt 1)) = (- 1, 1)
   \<and> point_val (hop_along_eq (NegZero, Flt 0) (Flt 1) (Flt 1) (Flt 1)) \<noteq>
       spec_step (fval NegZero, fval (Flt 0)) (fval (Flt 1)) (fval (Flt 1)) (fval (Flt 1))"
  by (simp add: point_val_def hop_along_eq_def Let_def fsub_def fmul_def np_abs_def
      np_copysign_def spec_step_def spec_sign_def)

section \<open>The batch generator\<close>

lemma for_n_loop_rows:
  "length ret = n \<Longrightarrow> i \<le> n \<Longrightarrow>
   for_n_loop a b c n i xy ret =
     take i ret @ map (\<lambda>k. ((\<lambda>p. hop_along_eq p a b c) ^^ Suc (k - i)) xy) [i..<n]"
proof (induction a b c n i xy ret rule: for_n_loop.induct)
  case (1 a b c n i xy ret)
  let ?step = "\<lambda>p. hop_along_eq p a b c"
  show ?case
  proof (cases "i < n")
    case False
    then have "for_n_loop a b c n i xy ret = ret"
      by (subst for_n_loop.simps) simp
    with False "1.prems" show ?thesis
      by simp
  next
    case True
    define xy' where "xy' = hop_along_eq xy a b c"
    define ret0 where "ret0 = ret[i := (fst xy', snd (ret ! i))]"
    define ret1 where "ret1 = ret0[i := (fst (ret0 ! i), snd xy')]"
    have ret1: "ret1 = ret[i := xy']"
      using True "1.prems" by (simp add: ret1_def ret0_def)
    have len: "length ret1 = n"
      using "1.prems" by (simp add: ret1)
    have unfold: "for_n_loop a b c n i xy ret = for_n_loop a b c n (Suc i) xy' ret1"
      using True by (subst for_n_loop.simps) (simp add: Let_def xy'_def ret0_def ret1_def)
    have ih: "for_n_loop a b c n (Suc i) xy' ret1 =
        take (Suc i) ret1 @ map (\<lambda>k. (?step ^^ Suc (k - Suc i)) xy') [Suc i..<n]"
      using "1.IH" [OF True xy'_def ret0_def ret1_def len] True by simp
    have tk: "take (Suc i) ret1 = take i ret @ [xy']"
      using True "1.prems" by (simp add: ret1 take_Suc_conv_app_nth)
    have mp: "map (\<lambda>k. (?step ^^ Suc (k - Suc i)) xy') [Suc i..<n] =
        map (\<lambda>k. (?step ^^ Suc (k - i)) xy) [Suc i..<n]"
    proof (rule map_cong [OF refl])
      fix k assume "k \<in> set [Suc i..<n]"
      then have e: "k - i = Suc (k - Suc i)" by auto
      have "(?step ^^ Suc (Suc (k - Suc i))) xy = (?step ^^ Suc (k - Suc i)) (?step xy)"
        by (simp only: funpow_Suc_right [of "Suc (k - Suc i)"] o_apply)
      then show "(?step ^^ Suc (k - Suc i)) xy' = (?step ^^ Suc (k - i)) xy"
        by (simp only: e xy'_def)
    qed
    have hd: "[i..<n] = i # [Suc i..<n]"
      using True by (simp add: upt_conv_Cons)
    have "for_n_loop a b c n i xy ret =
        (take i ret @ [xy']) @ map (\<lambda>k. (?step ^^ Suc (k - i)) xy) [Suc i..<n]"
      by (simp only: unfold ih tk mp)
    also have "\<dots> = take i ret @ map (\<lambda>k. (?step ^^ Suc (k - i)) xy) (i # [Suc i..<n])"
      by (simp add: xy'_def)
    finally show ?thesis
      by (simp only: hd)
  qed
qed

lemma hop_along_for_n_rows:
  "0 \<le> n \<Longrightarrow>
   hop_along_for_n a b c n xy_init =
     Inr (map (\<lambda>k. ((\<lambda>p. hop_along_eq p a b c) ^^ Suc k)
                 (case xy_init of None \<Rightarrow> (Flt 0, Flt 0) | Some p \<Rightarrow> p)) [0..<nat n])"
  by (simp add: hop_along_for_n_def np_zeros_def for_n_loop_rows)

text \<open>
  Claim C2. For every seed, parameters and \<open>n_iters \<ge> 0\<close>, \<^verbatim>\<open>hop_along_for_n\<close>
  returns a sequence of length exactly \<open>n_iters\<close> whose element at index \<open>k\<close> is the
  \<open>(k+1)\<close>-th iterate of the step on the seed (the seed itself is not an element);
  for \<open>n_iters = 0\<close> the sequence is empty. The seed is a value that the function only
  reads.
\<close>

theorem hop_along_for_n_iterates:
  "0 \<le> n \<Longrightarrow>
   (\<exists>ret. hop_along_for_n a b c n (Some seed) = Inr ret
      \<and> length ret = nat n
      \<and> (\<forall>k < nat n. ret ! k = ((\<lambda>p. hop_along_eq p a b c) ^^ Suc k) seed)
      \<and> (n = 0 \<longrightarrow> ret = []))"
  by (simp add: hop_along_for_n_rows)

theorem hop_along_for_n_iterates_witness:
  "(0::int) \<le> 2 \<and>
   hop_along_for_n (Flt 1) (Flt 1) (Flt 0) 2 (Some (Flt 0, Flt 0)) =
     Inr [(Flt 0, Flt 1), (Flt 1, Flt 1)]"
proof -
  obtain ret where r: "hop_along_for_n (Flt 1) (Flt 1) (Flt 0) 2 (Some (Flt 0, Flt 0)) = Inr ret"
    and l: "length ret = nat 2"
    and k: "\<forall>k < nat 2. ret ! k = ((\<lambda>p. hop_along_eq p (Flt 1) (Flt 1) (Flt 0)) ^^ Suc k) (Flt 0, Flt 0)"
    using hop_along_for_n_iterates [of 2 "Flt 1" "Flt 1" "Flt 0" "(Flt 0, Flt 0)"] by auto
  have "ret ! 0 = (Flt 0, Flt 1)" using k by (simp add: hop_example_first)
  moreover have "ret ! 1 = (Flt 1, Flt 1)" using k by (simp add: hop_example_first hop_example_second)
  moreover have "ret = [ret ! 0, ret ! 1]"
    using l by (cases ret; cases "tl ret") auto
  ultimately show ?thesis using r by simp
qed

text \<open>
  Claim C8. For every \<open>n_iters < 0\<close>, \<^verbatim>\<open>hop_along_for_n\<close> fails at once, with the
  \<^verbatim>\<open>ValueError\<close> that \<^verbatim>\<open>np.zeros\<close> raises for the negative dimension, before any
  step is taken; the count is not coerced.
\<close>

theorem hop_along_for_n_negative_count:
  "n < 0 \<Longrightarrow> hop_along_for_n a b c n xy_init = Inl ValueError"
  by (simp add: hop_along_for_n_def np_zeros_def)

theorem hop_along_for_n_negative_count_witness:
  "(- 1 :: int) < 0 \<and>
   hop_along_for_n (Flt 1) (Flt 1) (Flt 0) (- 1) (Some (Flt 0, Flt 0)) = Inl ValueError"
  using hop_along_for_n_negative_count [of "- 1" "Flt 1" "Flt 1" "Flt 0" "Some (Flt 0, Flt 0)"]
  by simp

section \<open>The randomizer's draws\<close>

lemma fval_np_random_uniform:
  "fval (fst (np_random_uniform lo hi g)) = fval lo + (fval hi - fval lo) * shd g"
  by (simp add: np_random_uniform_def fval_fadd fval_fmul fval_fsub)

lemma snd_np_random_uniform: "snd (np_random_uniform lo hi g) = stl g"
  by (simp add: np_random_uniform_def)

lemma random_abc_draws:
  "random_abc lo hi g =
     ((fst (np_random_uniform lo hi g),
       fst (np_random_uniform lo hi (stl g)),
       fst (np_random_uniform lo hi (stl (stl g)))), sdrop 3 g)"
  by (simp add: random_abc_def Let_def split_beta snd_np_random_uniform eval_nat_numeral)

lemma snd_random_abc_default: "snd (random_abc_default g) = sdrop 3 g"
  by (simp add: random_abc_default_def random_abc_draws)

lemma unit_samples_sdrop: "unit_samples g \<Longrightarrow> unit_samples (sdrop n g)"
  by (simp add: unit_samples_def sdrop_snth)

lemma unit_samples_shd: "unit_samples g \<Longrightarrow> 0 \<le> shd g \<and> shd g < 1"
  using snth.simps(1) [of g] unfolding unit_samples_def by metis

lemma unit_samples_stl: "unit_samples g \<Longrightarrow> unit_samples (stl g)"
  using unit_samples_sdrop [of g 1] by simp

lemma default_draw_range:
  assumes "unit_samples g"
  shows "- 10 \<le> fval (fst (np_random_uniform (Flt (- 10)) (Flt 10) g))
       \<and> fval (fst (np_random_uniform (Flt (- 10)) (Flt 10) g)) \<le> 10"
  using unit_samples_shd [OF assms] by (simp add: fval_np_random_uniform)

lemma random_abc_default_range:
  assumes "unit_samples g" "fst (random_abc_default g) = (x, y, z)"
  shows "- 10 \<le> fval x \<and> fval x \<le> 10 \<and> - 10 \<le> fval y \<and> fval y \<le> 10
       \<and> - 10 \<le> fval z \<and> fval z \<le> 10"
proof -
  note u0 = assms(1)
  note u1 = unit_samples_stl [OF u0]
  note u2 = unit_samples_stl [OF u1]
  from assms(2) have "x = fst (np_random_uniform (Flt (- 10)) (Flt 10) g)"
    "y = fst (np_random_uniform (Flt (- 10)) (Flt 10) (stl g))"
    "z = fst (np_random_uniform (Flt (- 10)) (Flt 10) (stl (stl g)))"
    by (simp_all add: random_abc_default_def random_abc_draws)
  with default_draw_range [OF u0] default_draw_range [OF u1] default_draw_range [OF u2]
  show ?thesis by simp
qed

lemma random_abc_default_half:
  "random_abc_default (sconst (1 / 2)) = ((Flt 0, Flt 0, Flt 0), sconst (1 / 2))"
  by (simp add: random_abc_default_def random_abc_draws np_random_uniform_def fsub_def fmul_def)

lemma unit_samples_half: "unit_samples (sconst (1 / 2))"
  by (simp add: unit_samples_def)

lemma random_abc_equal_bounds:
  assumes "fval lo = fval hi" "fst (random_abc lo hi g) = (x, y, z)"
  shows "feq x lo \<and> feq y lo \<and> feq z lo"
  using assms by (auto simp: feq_def random_abc_draws fval_np_random_uniform)

text \<open>
  Claim C9, at the input where the code leaves it. \<^verbatim>\<open>random_abc\<close> is one expression,
  three calls of \<^verbatim>\<open>np.random.uniform(min_val, max_val)\<close>, with no check of its
  arguments. At \<open>min_val = 1\<close>, \<open>max_val = 0\<close> and samples \<open>0.5\<close> it returns
  \<open>(0.5, 0.5, 0.5)\<close>, values below \<open>min_val\<close>, which its docstring calls the smallest
  value a parameter can take; the specification's randomizer fails there with
  InvalidArgument. (Equal bounds \<open>v\<close> give \<open>(v, v, v)\<close>: \<open>random_abc_equal_bounds\<close>.)
\<close>

theorem random_abc_inverted_range:
  "fval (Flt 0) < fval (Flt 1)
   \<and> spec_random_params (Flt 1) (Flt 0) (sconst (1 / 2)) = Inl InvalidArgument
   \<and> random_abc (Flt 1) (Flt 0) (sconst (1 / 2)) =
       ((Flt (1 / 2), Flt (1 / 2), Flt (1 / 2)), sconst (1 / 2))
   \<and> fval (Flt (1 / 2)) < fval (Flt 1)
   \<and> spec_random_params (Flt 1) (Flt 0) (sconst (1 / 2)) \<noteq>
       Inr (fst (random_abc (Flt 1) (Flt 0) (sconst (1 / 2))))"
  by (simp add: spec_random_params_def random_abc_draws np_random_uniform_def fsub_def fmul_def)

section \<open>One frame\<close>

lemma slice_last_drop: "0 < n \<Longrightarrow> slice_last n xs = drop (length xs - nat n) xs"
  by (simp add: slice_last_def Let_def nat_diff_distrib' max_def) 

lemma slice_last_length: "0 < n \<Longrightarrow> int (length (slice_last n xs)) \<le> n"
  by (simp add: slice_last_drop) 

lemma frame_cases:
  assumes "frame cfg s = Inr (draws, s')"
  obtains vals where
    "values_arr s \<noteq> []"
    "hop_along_for_n (param_a s) (param_b s) (param_c s) (n_iters cfg)
       (Some (last (values_arr s))) = Inr vals"
    "draws = (vals, alpha_init cfg) #
       (if 0 < n_hist cfg then history_scatter cfg (history s) else [])"
    "history s' =
       (if 0 < n_hist cfg then slice_last (n_hist cfg) (history s @ [vals]) else history s)"
    "full_iters s' = full_iters s + 1"
    "if 0 < n_reset cfg \<and> (full_iters s + 1) mod n_reset cfg = 0
     then values_arr s' = [(Flt 0, Flt 0)]
       \<and> params s' = fst (random_abc_default (rng s))
       \<and> rng s' = snd (random_abc_default (rng s))
     else values_arr s' = vals \<and> params s' = params s \<and> rng s' = rng s"
  using assms unfolding frame_def last_column_def
  by (auto simp: Let_def params_def split: if_splits sum.splits prod.splits)

lemma frame_succeeds:
  "values_arr s \<noteq> [] \<Longrightarrow> 0 \<le> n_iters cfg \<Longrightarrow> \<exists>draws s'. frame cfg s = Inr (draws, s')"
  by (simp add: frame_def last_column_def hop_along_for_n_rows Let_def split: prod.splits)

lemma frame_values_nonempty:
  assumes "frame cfg s = Inr (draws, s')" "0 < n_iters cfg"
  shows "values_arr s' \<noteq> []"
proof -
  from assms(1) obtain vals where
    v: "hop_along_for_n (param_a s) (param_b s) (param_c s) (n_iters cfg)
       (Some (last (values_arr s))) = Inr vals"
    and r: "if 0 < n_reset cfg \<and> (full_iters s + 1) mod n_reset cfg = 0
     then values_arr s' = [(Flt 0, Flt 0)]
       \<and> params s' = fst (random_abc_default (rng s))
       \<and> rng s' = snd (random_abc_default (rng s))
     else values_arr s' = vals \<and> params s' = params s \<and> rng s' = rng s"
    by (rule frame_cases)
  from v assms(2) have "vals \<noteq> []"
    by (auto simp: hop_along_for_n_rows)
  with r show ?thesis by (simp split: if_splits)
qed

lemma run_frames_Suc_Inr:
  "run_frames cfg (Suc k) s = Inr s' \<longleftrightarrow>
     (\<exists>s1 draws. run_frames cfg k s = Inr s1 \<and> frame cfg s1 = Inr (draws, s'))"
  by (auto split: sum.splits prod.splits)

lemma run_frames_succeeds:
  "0 < n_iters cfg \<Longrightarrow> values_arr s \<noteq> [] \<Longrightarrow>
   \<exists>s'. run_frames cfg k s = Inr s' \<and> values_arr s' \<noteq> []"
proof (induction k)
  case 0
  then show ?case by simp
next
  case (Suc k)
  then obtain s1 where s1: "run_frames cfg k s = Inr s1" "values_arr s1 \<noteq> []"
    by blast
  with Suc.prems obtain draws s' where f: "frame cfg s1 = Inr (draws, s')"
    using frame_succeeds [of s1 cfg] by auto
  with Suc.prems have "values_arr s' \<noteq> []"
    by (simp add: frame_values_nonempty)
  with s1 f show ?case by simp
qed

lemma plot_hop_along_succeeds:
  "0 < n_iters cfg \<Longrightarrow> \<exists>s. plot_hop_along cfg a b c g k = Inr s"
  using run_frames_succeeds [of cfg "init_state a b c g" k]
  by (auto simp: plot_hop_along_def init_state_def)

lemma frame_history_bound:
  assumes "frame cfg s = Inr (draws, s')" "int (length (history s)) \<le> n_hist cfg"
  shows "int (length (history s')) \<le> n_hist cfg"
proof -
  from assms(1) obtain vals where
    "history s' =
       (if 0 < n_hist cfg then slice_last (n_hist cfg) (history s @ [vals]) else history s)"
    by (rule frame_cases)
  with assms(2) show ?thesis
    by (simp add: slice_last_length split: if_splits)
qed

lemma run_frames_history_bound:
  "run_frames cfg k s = Inr s' \<Longrightarrow> int (length (history s)) \<le> n_hist cfg \<Longrightarrow>
   int (length (history s')) \<le> n_hist cfg"
proof (induction k arbitrary: s')
  case 0
  then show ?case by simp
next
  case (Suc k)
  from Suc.prems(1) obtain s1 draws where
    "run_frames cfg k s = Inr s1" "frame cfg s1 = Inr (draws, s')"
    by (auto simp only: run_frames_Suc_Inr)
  with Suc.IH Suc.prems(2) show ?case
    by (blast intro: frame_history_bound)
qed

lemma frame_seed_continuity:
  assumes "frame cfg s = Inr (draws, s')" "0 < n_iters cfg"
  shows "hop_along_for_n (param_a s) (param_b s) (param_c s) (n_iters cfg)
           (Some (last (values_arr s))) = Inr (fst (draws ! 0))"
    and "last_column (values_arr s') =
           Inr (if 0 < n_reset cfg \<and> (full_iters s + 1) mod n_reset cfg = 0
                then (Flt 0, Flt 0) else last (fst (draws ! 0)))"
proof -
  from assms(1) obtain vals where
    v: "hop_along_for_n (param_a s) (param_b s) (param_c s) (n_iters cfg)
       (Some (last (values_arr s))) = Inr vals"
    and d: "draws = (vals, alpha_init cfg) #
       (if 0 < n_hist cfg then history_scatter cfg (history s) else [])"
    and r: "if 0 < n_reset cfg \<and> (full_iters s + 1) mod n_reset cfg = 0
     then values_arr s' = [(Flt 0, Flt 0)]
       \<and> params s' = fst (random_abc_default (rng s))
       \<and> rng s' = snd (random_abc_default (rng s))
     else values_arr s' = vals \<and> params s' = params s \<and> rng s' = rng s"
    by (rule frame_cases)
  from d have v0: "fst (draws ! 0) = vals"
    by simp
  from v v0 show "hop_along_for_n (param_a s) (param_b s) (param_c s) (n_iters cfg)
           (Some (last (values_arr s))) = Inr (fst (draws ! 0))"
    by simp
  from v assms(2) have "vals \<noteq> []"
    by (auto simp: hop_along_for_n_rows)
  with r v0 show "last_column (values_arr s') =
           Inr (if 0 < n_reset cfg \<and> (full_iters s + 1) mod n_reset cfg = 0
                then (Flt 0, Flt 0) else last (fst (draws ! 0)))"
    by (simp add: last_column_def split: if_splits)
qed

lemma length_history_scatter: "length (history_scatter cfg h) = length h"
  by (simp add: history_scatter_def)

lemma nth_history_scatter:
  "i < length h \<Longrightarrow>
   history_scatter cfg h ! i =
     (h ! i, fmul (int_truediv (int i + 1) (n_hist cfg)) (alpha_init cfg))"
  by (simp add: history_scatter_def nth_enumerate_eq)

lemma fval_index_alpha:
  "fval (fmul (int_truediv (int i + 1) n) al) = (real i + 1) / real_of_int n * fval al"
proof -
  have "int i + 1 \<noteq> 0" by simp
  then have "int_truediv (int i + 1) n = Flt (real_of_int (int i + 1) / real_of_int n)"
    unfolding int_truediv_def by simp
  then show ?thesis
    by (simp add: fval_fmul)
qed

lemma frame_draws_nth:
  assumes "0 < n_hist cfg" "frame cfg s = Inr (draws, s')"
  shows "length draws = Suc (length (history s))"
    and "snd (draws ! 0) = alpha_init cfg"
    and "i < length (history s) \<Longrightarrow> fst (draws ! Suc i) = history s ! i"
    and "i < length (history s) \<Longrightarrow>
         fval (snd (draws ! Suc i)) =
           (real i + 1) / real_of_int (n_hist cfg) * fval (alpha_init cfg)"
proof -
  from assms(2) obtain vals where
    "draws = (vals, alpha_init cfg) #
       (if 0 < n_hist cfg then history_scatter cfg (history s) else [])"
    by (rule frame_cases)
  with assms(1) have d: "draws = (vals, alpha_init cfg) # history_scatter cfg (history s)"
    by simp
  show "length draws = Suc (length (history s))"
    by (simp add: d length_history_scatter)
  show "snd (draws ! 0) = alpha_init cfg"
    by (simp add: d)
  show "i < length (history s) \<Longrightarrow> fst (draws ! Suc i) = history s ! i"
    by (simp add: d nth_history_scatter)
  show "i < length (history s) \<Longrightarrow>
         fval (snd (draws ! Suc i)) =
           (real i + 1) / real_of_int (n_hist cfg) * fval (alpha_init cfg)"
    by (simp add: d nth_history_scatter fval_index_alpha)
qed

lemma frame_history_fifo:
  assumes "0 < n_hist cfg" "frame cfg s = Inr (draws, s')"
  shows "history s' =
    drop (Suc (length (history s)) - nat (n_hist cfg)) (history s @ [fst (draws ! 0)])"
proof -
  from assms(2) obtain vals where
    "draws = (vals, alpha_init cfg) #
       (if 0 < n_hist cfg then history_scatter cfg (history s) else [])"
    "history s' =
       (if 0 < n_hist cfg then slice_last (n_hist cfg) (history s @ [vals]) else history s)"
    by (rule frame_cases)
  with assms(1) show ?thesis
    by (simp add: slice_last_drop)
qed

lemma frame_rendered_Inr:
  assumes "frame_rendered cfg s = Inr (draws, s')"
  shows "frame cfg s = Inr (draws, s')" and "0 \<le> fval (alpha_init cfg)"
proof -
  from assms show fr: "frame cfg s = Inr (draws, s')"
    by (auto simp: frame_rendered_def split: sum.splits prod.splits)
  with assms have sc: "scatter_all draws = Inr ()"
    by (simp add: frame_rendered_def split: sum.splits)
  from fr obtain vals where
    "draws = (vals, alpha_init cfg) #
       (if 0 < n_hist cfg then history_scatter cfg (history s) else [])"
    by (rule frame_cases)
  with sc have "plt_scatter (vals, alpha_init cfg) = Inr ()"
    by (simp split: sum.splits)
  then show "0 \<le> fval (alpha_init cfg)"
    by (simp add: plt_scatter_def split: if_splits)
qed

section \<open>Runs of the loop on concrete inputs\<close>

text \<open>
  With \<open>a = 1\<close>, \<open>b = 1\<close>, \<open>c = 0\<close> the orbit of \<open>(0, 0)\<close> has period three:
  \<open>(0, 1)\<close>, \<open>(1, 1)\<close>, \<open>(0, 0)\<close>.
\<close>

lemma run_two_frames_reset:
  "plot_hop_along \<lparr>n_iters = 1, n_hist = 1, n_reset = 2, alpha_init = Flt 1\<rparr>
     (Flt 1) (Flt 1) (Flt 0) (sconst (1 / 2)) 2 =
     Inr \<lparr>param_a = Flt 0, param_b = Flt 0, param_c = Flt 0,
          values_arr = [(Flt 0, Flt 0)], history = [[(Flt 1, Flt 1)]],
          full_iters = 2, rng = sconst (1 / 2)\<rparr>"
  by (simp add: plot_hop_along_def numeral_2_eq_2 frame_def init_state_def last_column_def
      hop_along_for_n_rows Let_def hop_example_first hop_example_second slice_last_def
      random_abc_default_half)

lemma run_two_frames_no_reset:
  "plot_hop_along \<lparr>n_iters = 1, n_hist = 1, n_reset = 0, alpha_init = Flt 1\<rparr>
     (Flt 1) (Flt 1) (Flt 0) (sconst (1 / 2)) 2 =
     Inr \<lparr>param_a = Flt 1, param_b = Flt 1, param_c = Flt 0,
          values_arr = [(Flt 1, Flt 1)], history = [[(Flt 1, Flt 1)]],
          full_iters = 2, rng = sconst (1 / 2)\<rparr>"
  by (simp add: plot_hop_along_def numeral_2_eq_2 frame_def init_state_def last_column_def
      hop_along_for_n_rows Let_def hop_example_first hop_example_second slice_last_def)

lemma run_one_frame_hist2:
  "plot_hop_along \<lparr>n_iters = 1, n_hist = 2, n_reset = 0, alpha_init = Flt 1\<rparr>
     (Flt 1) (Flt 1) (Flt 0) (sconst 0) 1 =
   Inr \<lparr>param_a = Flt 1, param_b = Flt 1, param_c = Flt 0,
        values_arr = [(Flt 0, Flt 1)], history = [[(Flt 0, Flt 1)]],
        full_iters = 1, rng = sconst 0\<rparr>"
  by (simp add: plot_hop_along_def frame_def init_state_def last_column_def
      hop_along_for_n_rows Let_def hop_example_first slice_last_def)

lemma frame_two_hist2:
  "frame \<lparr>n_iters = 1, n_hist = 2, n_reset = 0, alpha_init = Flt 1\<rparr>
     \<lparr>param_a = Flt 1, param_b = Flt 1, param_c = Flt 0,
      values_arr = [(Flt 0, Flt 1)], history = [[(Flt 0, Flt 1)]],
      full_iters = 1, rng = sconst 0\<rparr> =
   Inr ([([(Flt 1, Flt 1)], Flt 1), ([(Flt 0, Flt 1)], Flt (1 / 2))],
        \<lparr>param_a = Flt 1, param_b = Flt 1, param_c = Flt 0,
         values_arr = [(Flt 1, Flt 1)], history = [[(Flt 0, Flt 1)], [(Flt 1, Flt 1)]],
         full_iters = 2, rng = sconst 0\<rparr>)"
  apply (simp add: frame_def last_column_def hop_along_for_n_rows Let_def
      hop_example_second slice_last_def)
  apply (simp add: history_scatter_def enumerate_eq_zip int_truediv_def fmul_def)
  done

lemma frame_rendered_two_hist2:
  "frame_rendered \<lparr>n_iters = 1, n_hist = 2, n_reset = 0, alpha_init = Flt 1\<rparr>
     \<lparr>param_a = Flt 1, param_b = Flt 1, param_c = Flt 0,
      values_arr = [(Flt 0, Flt 1)], history = [[(Flt 0, Flt 1)]],
      full_iters = 1, rng = sconst 0\<rparr> =
   Inr ([([(Flt 1, Flt 1)], Flt 1), ([(Flt 0, Flt 1)], Flt (1 / 2))],
        \<lparr>param_a = Flt 1, param_b = Flt 1, param_c = Flt 0,
         values_arr = [(Flt 1, Flt 1)], history = [[(Flt 0, Flt 1)], [(Flt 1, Flt 1)]],
         full_iters = 2, rng = sconst 0\<rparr>)"
  by (simp add: frame_rendered_def frame_two_hist2 plt_scatter_def)

lemma frame_draws_second:
  "frame_draws \<lparr>n_iters = 1, n_hist = 2, n_reset = 0, alpha_init = Flt 1\<rparr>
     (Flt 1) (Flt 1) (Flt 0) (sconst 0) 1 =
   Inr [([(Flt 1, Flt 1)], Flt 1), ([(Flt 0, Flt 1)], Flt (1 / 2))]"
  apply (simp only: frame_draws_def)
  apply (simp add: plot_hop_along_def frame_def init_state_def last_column_def
      hop_along_for_n_rows Let_def hop_example_first hop_example_second slice_last_def)
  apply (simp add: history_scatter_def enumerate_eq_zip int_truediv_def fmul_def)
  done

section \<open>The seed across frames\<close>

text \<open>
  Claim C3, at the input where the code leaves it. With \<open>n_iters = 0\<close> the first frame
  ends with an array \<^verbatim>\<open>values\<close> that has no column, so unless a reset follows at once
  (\<open>n_reset = 1\<close>) the second frame raises \<^verbatim>\<open>IndexError\<close> on \<^verbatim>\<open>values[:, -1]\<close>: the
  seed is not carried over unchanged. (For \<open>n_iters > 0\<close> the seed of the next frame is
  the last point of the batch, or \<open>(0, 0)\<close> after a reset: \<open>frame_seed_continuity\<close>.)
\<close>

theorem empty_batch_breaks_loop:
  "n_iters cfg = 0 \<Longrightarrow> n_reset cfg \<noteq> 1 \<Longrightarrow>
   (\<exists>s. plot_hop_along cfg a b c g 1 = Inr s \<and> values_arr s = [])
   \<and> plot_hop_along cfg a b c g 2 = Inl IndexError"
proof -
  assume n: "n_iters cfg = 0" and r: "n_reset cfg \<noteq> 1"
  have nr: "(0 < n_reset cfg \<and> 1 mod n_reset cfg = 0) = False"
  proof (cases "1 < n_reset cfg")
    case True
    then show ?thesis by simp
  next
    case False
    with r show ?thesis by simp
  qed
  define s1 where "s1 = (init_state a b c g)\<lparr>values_arr := [], history :=
      (if 0 < n_hist cfg then slice_last (n_hist cfg) [[]] else []), full_iters := 1\<rparr>"
  have f1: "frame cfg (init_state a b c g) =
      Inr ((([], alpha_init cfg)) # (if 0 < n_hist cfg then history_scatter cfg [] else []), s1)"
    using n
    by (simp add: frame_def init_state_def last_column_def hop_along_for_n_rows Let_def s1_def nr)
  have r1: "plot_hop_along cfg a b c g 1 = Inr s1"
    by (simp add: plot_hop_along_def f1)
  have v1: "values_arr s1 = []"
    by (simp add: s1_def)
  have f2: "frame cfg s1 = Inl IndexError"
    by (simp add: frame_def last_column_def v1)
  have "run_frames cfg (Suc (Suc 0)) (init_state a b c g) = Inl IndexError"
    using r1 f2 by (simp add: plot_hop_along_def f1)
  then have r2: "plot_hop_along cfg a b c g 2 = Inl IndexError"
    by (simp add: plot_hop_along_def numeral_2_eq_2)
  from r1 v1 r2 show ?thesis by simp
qed

theorem empty_batch_breaks_loop_witness:
  "n_iters \<lparr>n_iters = 0, n_hist = 10, n_reset = 10, alpha_init = Flt (3 / 10)\<rparr> = 0
   \<and> n_reset \<lparr>n_iters = 0, n_hist = 10, n_reset = 10, alpha_init = Flt (3 / 10)\<rparr> \<noteq> 1
   \<and> plot_hop_along \<lparr>n_iters = 0, n_hist = 10, n_reset = 10, alpha_init = Flt (3 / 10)\<rparr>
        (Flt 1) (Flt 1) (Flt 0) (sconst 0) 2 = Inl IndexError"
  using empty_batch_breaks_loop
    [of "\<lparr>n_iters = 0, n_hist = 10, n_reset = 10, alpha_init = Flt (3 / 10)\<rparr>"
      "Flt 1" "Flt 1" "Flt 0" "sconst 0"]
  by simp

section \<open>The history buffer\<close>

text \<open>
  Claim C4. For every \<open>n_hist \<ge> 0\<close> and every number of frames, the history
  holds at most \<open>n_hist\<close> batches after the frame's trim; and with \<open>n_iters > 0\<close> every
  number of frames is reached.
\<close>

theorem history_length_bounded:
  "0 \<le> n_hist cfg \<Longrightarrow>
   (\<forall>s. plot_hop_along cfg a b c g k = Inr s \<longrightarrow> int (length (history s)) \<le> n_hist cfg)
   \<and> (0 < n_iters cfg \<longrightarrow> (\<exists>s. plot_hop_along cfg a b c g k = Inr s))"
  using run_frames_history_bound [of cfg k "init_state a b c g"]
  by (simp add: plot_hop_along_def [symmetric] plot_hop_along_succeeds)
    (simp add: plot_hop_along_def init_state_def)

theorem history_length_bounded_witness:
  "(0::int) \<le> 1 \<and>
   plot_hop_along \<lparr>n_iters = 1, n_hist = 1, n_reset = 0, alpha_init = Flt 1\<rparr>
     (Flt 1) (Flt 1) (Flt 0) (sconst 0) 2 =
     Inr \<lparr>param_a = Flt 1, param_b = Flt 1, param_c = Flt 0,
          values_arr = [(Flt 1, Flt 1)], history = [[(Flt 1, Flt 1)]],
          full_iters = 2, rng = sconst 0\<rparr>
   \<and> int (length [[(Flt 1, Flt 1)]]) \<le> (1::int)"
proof -
  let ?cfg = "\<lparr>n_iters = 1, n_hist = 1, n_reset = 0, alpha_init = Flt 1\<rparr>"
  have run: "plot_hop_along ?cfg (Flt 1) (Flt 1) (Flt 0) (sconst 0) 2 =
     Inr \<lparr>param_a = Flt 1, param_b = Flt 1, param_c = Flt 0,
          values_arr = [(Flt 1, Flt 1)], history = [[(Flt 1, Flt 1)]],
          full_iters = 2, rng = sconst 0\<rparr>"
    by (simp add: plot_hop_along_def numeral_2_eq_2 frame_def init_state_def last_column_def
        hop_along_for_n_rows Let_def hop_example_first hop_example_second slice_last_def)
  from history_length_bounded [of ?cfg "Flt 1" "Flt 1" "Flt 0" "sconst 0" 2] run
  show ?thesis by simp
qed

text \<open>
  Claim C5, as the code has it. When \<open>n_hist > 0\<close>, a frame draws the new batch with
  opacity \<open>alpha_init\<close> and then every batch of the history, oldest first, the batch at
  position \<open>i\<close> (counted from 0 at the oldest) with opacity
  \<open>(i + 1) / n_hist * alpha_init\<close>: its rank counted from 1, over \<open>n_hist\<close>, times
  \<open>alpha_init\<close>. This opacity never exceeds \<open>alpha_init\<close>: the history holds at most
  \<open>n_hist\<close> batches, and a batch of the history is drawn only after the renderer has
  taken \<open>alpha_init\<close> for the new batch. The history then takes the new batch at its
  end and drops its oldest entries.
\<close>

theorem history_batch_opacity:
  assumes "0 < n_hist cfg"
    and "plot_hop_along cfg a b c g k = Inr s"
    and "frame_rendered cfg s = Inr (draws, s')"
  shows "length draws = Suc (length (history s))
    \<and> snd (draws ! 0) = alpha_init cfg
    \<and> (\<forall>i < length (history s).
          fst (draws ! Suc i) = history s ! i
        \<and> fval (snd (draws ! Suc i)) =
            (real i + 1) / real_of_int (n_hist cfg) * fval (alpha_init cfg)
        \<and> fval (snd (draws ! Suc i)) \<le> fval (alpha_init cfg))
    \<and> history s' =
        drop (Suc (length (history s)) - nat (n_hist cfg)) (history s @ [fst (draws ! 0)])"
proof -
  from assms(3) have fr: "frame cfg s = Inr (draws, s')"
    and al: "0 \<le> fval (alpha_init cfg)"
    by (rule frame_rendered_Inr)+
  from assms(2) have "run_frames cfg k (init_state a b c g) = Inr s"
    by (simp add: plot_hop_along_def)
  with assms(1) have len: "int (length (history s)) \<le> n_hist cfg"
    using run_frames_history_bound [of cfg k "init_state a b c g" s]
    by (simp add: init_state_def)
  have le: "fval (snd (draws ! Suc i)) \<le> fval (alpha_init cfg)"
    if i: "i < length (history s)" for i
  proof -
    from i len have "real i + 1 \<le> real_of_int (n_hist cfg)"
      by linarith
    with assms(1) have "(real i + 1) / real_of_int (n_hist cfg) \<le> 1"
      by simp
    from this al have "(real i + 1) / real_of_int (n_hist cfg) * fval (alpha_init cfg)
        \<le> 1 * fval (alpha_init cfg)"
      by (rule mult_right_mono)
    then show ?thesis
      by (simp add: frame_draws_nth(4) [OF assms(1) fr i])
  qed
  show ?thesis
    using frame_draws_nth [OF assms(1) fr] frame_history_fifo [OF assms(1) fr] le
    by simp
qed

theorem history_batch_opacity_witness:
  "0 < n_hist \<lparr>n_iters = 1, n_hist = 2, n_reset = 0, alpha_init = Flt 1\<rparr>
   \<and> plot_hop_along \<lparr>n_iters = 1, n_hist = 2, n_reset = 0, alpha_init = Flt 1\<rparr>
     (Flt 1) (Flt 1) (Flt 0) (sconst 0) 1 =
     Inr \<lparr>param_a = Flt 1, param_b = Flt 1, param_c = Flt 0,
        values_arr = [(Flt 0, Flt 1)], history = [[(Flt 0, Flt 1)]],
        full_iters = 1, rng = sconst 0\<rparr>
   \<and> frame_rendered \<lparr>n_iters = 1, n_hist = 2, n_reset = 0, alpha_init = Flt 1\<rparr>
     \<lparr>param_a = Flt 1, param_b = Flt 1, param_c = Flt 0,
      values_arr = [(Flt 0, Flt 1)], history = [[(Flt 0, Flt 1)]],
      full_iters = 1, rng = sconst 0\<rparr> =
     Inr ([([(Flt 1, Flt 1)], Flt 1), ([(Flt 0, Flt 1)], Flt (1 / 2))],
        \<lparr>param_a = Flt 1, param_b = Flt 1, param_c = Flt 0,
         values_arr = [(Flt 1, Flt 1)], history = [[(Flt 0, Flt 1)], [(Flt 1, Flt 1)]],
         full_iters = 2, rng = sconst 0\<rparr>)
   \<and> fval (Flt (1 / 2)) = (real 0 + 1) / real_of_int 2 * fval (Flt 1)
   \<and> fval (Flt (1 / 2)) \<le> fval (Flt 1)"
  using history_batch_opacity [OF _ run_one_frame_hist2 frame_rendered_two_hist2]
    run_one_frame_hist2 frame_rendered_two_hist2
  by simp

text \<open>
  With the rank counted from 1, the specification's \<open>(rank + 1) / n_hist * alpha_init\<close>
  gives the oldest batch the opacity \<open>2 / n_hist * alpha_init\<close>. In the second frame of
  a run with \<open>n_hist = 2\<close> and \<open>alpha_init = 1\<close> the only batch of the history is drawn
  with opacity \<open>1/2\<close>, not \<open>1\<close>.
\<close>

theorem opacity_rank_counterexample:
  "frame_draws \<lparr>n_iters = 1, n_hist = 2, n_reset = 0, alpha_init = Flt 1\<rparr>
     (Flt 1) (Flt 1) (Flt 0) (sconst 0) 1 =
     Inr [([(Flt 1, Flt 1)], Flt 1), ([(Flt 0, Flt 1)], Flt (1 / 2))]
   \<and> spec_opacity 1 2 (fval (Flt 1)) = 1
   \<and> fval (Flt (1 / 2)) \<noteq> spec_opacity 1 2 (fval (Flt 1))"
  using frame_draws_second by (simp add: spec_opacity_def)

section \<open>Parameter resets\<close>

lemma reset_test_nat:
  "0 < n \<Longrightarrow> ((int f + 1) mod n = 0) = (Suc f mod nat n = 0)"
proof -
  assume "0 < n"
  then have "int (Suc f mod nat n) = (int f + 1) mod n"
    by (simp add: zmod_int add.commute)
  then show ?thesis
    by (metis of_nat_eq_0_iff)
qed

lemma run_frames_schedule:
  assumes "0 < n_reset cfg"
  shows "run_frames cfg f (init_state a b c g) = Inr s \<Longrightarrow>
    full_iters s = int f
    \<and> rng s = sdrop (3 * (f div nat (n_reset cfg))) g
    \<and> params s =
        (if f div nat (n_reset cfg) = 0 then (a, b, c)
         else fst (random_abc_default (sdrop (3 * (f div nat (n_reset cfg) - 1)) g)))
    \<and> (0 < f \<and> f mod nat (n_reset cfg) = 0 \<longrightarrow> values_arr s = [(Flt 0, Flt 0)])"
proof (induction f arbitrary: s)
  case 0
  then show ?case by (auto simp: init_state_def params_def)
next
  case (Suc f)
  let ?k = "nat (n_reset cfg)"
  from Suc.prems obtain s1 draws where
    r1: "run_frames cfg f (init_state a b c g) = Inr s1" and fr: "frame cfg s1 = Inr (draws, s)"
    by (auto simp only: run_frames_Suc_Inr)
  from Suc.IH [OF r1] have
    fi: "full_iters s1 = int f" and
    rg: "rng s1 = sdrop (3 * (f div ?k)) g" and
    pa: "params s1 = (if f div ?k = 0 then (a, b, c)
         else fst (random_abc_default (sdrop (3 * (f div ?k - 1)) g)))"
    by simp_all
  from fr obtain vals where
    fi': "full_iters s = full_iters s1 + 1" and
    rs: "if 0 < n_reset cfg \<and> (full_iters s1 + 1) mod n_reset cfg = 0
     then values_arr s = [(Flt 0, Flt 0)]
       \<and> params s = fst (random_abc_default (rng s1))
       \<and> rng s = snd (random_abc_default (rng s1))
     else values_arr s = vals \<and> params s = params s1 \<and> rng s = rng s1"
    by (rule frame_cases)
  have test: "(0 < n_reset cfg \<and> (full_iters s1 + 1) mod n_reset cfg = 0) = (Suc f mod ?k = 0)"
    using assms by (simp add: fi reset_test_nat)
  show ?case
  proof (cases "Suc f mod ?k = 0")
    case True
    then have d: "Suc f div ?k = Suc (f div ?k)"
      by (simp add: div_Suc)
    from rs True test have "values_arr s = [(Flt 0, Flt 0)]"
      "params s = fst (random_abc_default (rng s1))"
      "rng s = snd (random_abc_default (rng s1))"
      by simp_all
    then show ?thesis
      using fi fi' by (simp add: d rg snd_random_abc_default add.commute)
  next
    case False
    then have d: "Suc f div ?k = f div ?k"
      by (simp add: div_Suc)
    from rs False test have "params s = params s1" "rng s = rng s1"
      by simp_all
    then show ?thesis
      using fi fi' False by (simp add: d rg pa)
  qed
qed

lemma run_frames_no_reset:
  "n_reset cfg \<le> 0 \<Longrightarrow> run_frames cfg f s0 = Inr s \<Longrightarrow>
   params s = params s0 \<and> rng s = rng s0"
proof (induction f arbitrary: s)
  case 0
  then show ?case by simp
next
  case (Suc f)
  from Suc.prems(2) obtain s1 draws where
    r1: "run_frames cfg f s0 = Inr s1" and fr: "frame cfg s1 = Inr (draws, s)"
    by (auto simp only: run_frames_Suc_Inr)
  from fr obtain vals where
    "if 0 < n_reset cfg \<and> (full_iters s1 + 1) mod n_reset cfg = 0
     then values_arr s = [(Flt 0, Flt 0)]
       \<and> params s = fst (random_abc_default (rng s1))
       \<and> rng s = snd (random_abc_default (rng s1))
     else values_arr s = vals \<and> params s = params s1 \<and> rng s = rng s1"
    by (rule frame_cases)
  with Suc.prems(1) have "params s = params s1 \<and> rng s = rng s1"
    by simp
  with Suc.IH [OF Suc.prems(1) r1] show ?case by simp
qed

text \<open>
  Claim C7. With \<open>n_reset = k > 0\<close>, the first \<open>f\<close> frames draw new parameters
  \<open>f div k\<close> times, once at the end of every \<open>k\<close>-th frame and never in between: the
  generator has given \<open>3 * (f div k)\<close> samples, and the parameters are the initial ones
  before the first reset and the latest draw after it. Right after a reset (\<open>f\<close> a
  positive multiple of \<open>k\<close>) the seed of the next frame is \<open>(0, 0)\<close>. With \<open>n_reset = 0\<close>
  the parameters are the initial ones after any number of frames. With \<open>n_iters > 0\<close>
  every number of frames is reached.
\<close>

theorem reset_schedule:
  "(\<forall>s. plot_hop_along cfg a b c g f = Inr s \<longrightarrow>
      (0 < n_reset cfg \<longrightarrow>
         rng s = sdrop (3 * (f div nat (n_reset cfg))) g
         \<and> params s =
             (if f div nat (n_reset cfg) = 0 then (a, b, c)
              else fst (random_abc_default (sdrop (3 * (f div nat (n_reset cfg) - 1)) g)))
         \<and> (0 < f \<and> f mod nat (n_reset cfg) = 0 \<longrightarrow>
              last_column (values_arr s) = Inr (Flt 0, Flt 0)))
      \<and> (n_reset cfg = 0 \<longrightarrow> params s = (a, b, c) \<and> rng s = g))
   \<and> (0 < n_iters cfg \<longrightarrow> (\<exists>s. plot_hop_along cfg a b c g f = Inr s))"
proof (intro conjI allI impI)
  fix s assume "plot_hop_along cfg a b c g f = Inr s" "0 < n_reset cfg"
  then have r: "run_frames cfg f (init_state a b c g) = Inr s"
    by (simp add: plot_hop_along_def)
  note sch = run_frames_schedule [OF \<open>0 < n_reset cfg\<close> r]
  from sch show "rng s = sdrop (3 * (f div nat (n_reset cfg))) g" by simp
  from sch show "params s =
             (if f div nat (n_reset cfg) = 0 then (a, b, c)
              else fst (random_abc_default (sdrop (3 * (f div nat (n_reset cfg) - 1)) g)))"
    by simp
  assume "0 < f \<and> f mod nat (n_reset cfg) = 0"
  with sch show "last_column (values_arr s) = Inr (Flt 0, Flt 0)"
    by (simp add: last_column_def)
next
  fix s assume "plot_hop_along cfg a b c g f = Inr s" "n_reset cfg = 0"
  then have "params s = params (init_state a b c g) \<and> rng s = rng (init_state a b c g)"
    using run_frames_no_reset [of cfg f "init_state a b c g" s]
    by (simp add: plot_hop_along_def)
  then show "params s = (a, b, c)" "rng s = g"
    by (simp_all add: init_state_def params_def)
next
  assume "0 < n_iters cfg"
  then show "\<exists>s. plot_hop_along cfg a b c g f = Inr s"
    by (rule plot_hop_along_succeeds)
qed

theorem reset_schedule_witness:
  "plot_hop_along \<lparr>n_iters = 1, n_hist = 1, n_reset = 2, alpha_init = Flt 1\<rparr>
     (Flt 1) (Flt 1) (Flt 0) (sconst (1 / 2)) 2 =
     Inr \<lparr>param_a = Flt 0, param_b = Flt 0, param_c = Flt 0,
          values_arr = [(Flt 0, Flt 0)], history = [[(Flt 1, Flt 1)]],
          full_iters = 2, rng = sconst (1 / 2)\<rparr>
   \<and> (Flt 0, Flt 0, Flt 0) = fst (random_abc_default (sdrop (3 * (2 div nat 2 - 1)) (sconst (1 / 2))))
   \<and> last_column [(Flt 0, Flt 0)] = Inr (Flt 0, Flt 0)
   \<and> plot_hop_along \<lparr>n_iters = 1, n_hist = 1, n_reset = 0, alpha_init = Flt 1\<rparr>
     (Flt 1) (Flt 1) (Flt 0) (sconst (1 / 2)) 2 =
     Inr \<lparr>param_a = Flt 1, param_b = Flt 1, param_c = Flt 0,
          values_arr = [(Flt 1, Flt 1)], history = [[(Flt 1, Flt 1)]],
          full_iters = 2, rng = sconst (1 / 2)\<rparr>
   \<and> params \<lparr>param_a = Flt 1, param_b = Flt 1, param_c = Flt 0,
          values_arr = [(Flt 1, Flt 1)], history = [[(Flt 1, Flt 1)]],
          full_iters = 2, rng = sconst (1 / 2)\<rparr> = (Flt 1, Flt 1, Flt 0)"
  using reset_schedule [of "\<lparr>n_iters = 1, n_hist = 1, n_reset = 2, alpha_init = Flt 1\<rparr>"
      "Flt 1" "Flt 1" "Flt 0" "sconst (1 / 2)" 2]
    reset_schedule [of "\<lparr>n_iters = 1, n_hist = 1, n_reset = 0, alpha_init = Flt 1\<rparr>"
      "Flt 1" "Flt 1" "Flt 0" "sconst (1 / 2)" 2]
  by (simp add: run_two_frames_reset run_two_frames_no_reset params_def)

text \<open>
  Claim C10. A reset calls \<^verbatim>\<open>random_abc()\<close> with its defaults, so once a reset has
  happened (\<open>n_reset > 0\<close> and at least \<open>n_reset\<close> frames) the parameters lie in
  \<open>[-10, 10]\<close>, whatever the initial parameters and the configuration.
\<close>

theorem reset_params_default_range:
  assumes "unit_samples g" "0 < n_reset cfg" "nat (n_reset cfg) \<le> f"
    and "plot_hop_along cfg a b c g f = Inr s"
  shows "- 10 \<le> fval (param_a s) \<and> fval (param_a s) \<le> 10
       \<and> - 10 \<le> fval (param_b s) \<and> fval (param_b s) \<le> 10
       \<and> - 10 \<le> fval (param_c s) \<and> fval (param_c s) \<le> 10"
proof -
  let ?r = "f div nat (n_reset cfg)"
  from assms(2,3) have "0 < ?r"
    by (simp add: div_greater_zero_iff)
  moreover from assms(4) have "run_frames cfg f (init_state a b c g) = Inr s"
    by (simp add: plot_hop_along_def)
  ultimately have "params s = fst (random_abc_default (sdrop (3 * (?r - 1)) g))"
    using run_frames_schedule [OF assms(2)] by simp
  then have "fst (random_abc_default (sdrop (3 * (?r - 1)) g)) = (param_a s, param_b s, param_c s)"
    by (simp add: params_def)
  with unit_samples_sdrop [OF assms(1)] show ?thesis
    by (rule random_abc_default_range)
qed

theorem reset_params_default_range_witness:
  "unit_samples (sconst (1 / 2)) \<and> (0::int) < 2 \<and> nat 2 \<le> (2::nat)
   \<and> plot_hop_along \<lparr>n_iters = 1, n_hist = 1, n_reset = 2, alpha_init = Flt 1\<rparr>
     (Flt 1) (Flt 1) (Flt 0) (sconst (1 / 2)) 2 =
     Inr \<lparr>param_a = Flt 0, param_b = Flt 0, param_c = Flt 0,
          values_arr = [(Flt 0, Flt 0)], history = [[(Flt 1, Flt 1)]],
          full_iters = 2, rng = sconst (1 / 2)\<rparr>
   \<and> - 10 \<le> fval (Flt 0) \<and> fval (Flt 0) \<le> 10"
  using reset_params_default_range
    [of "sconst (1 / 2)" "\<lparr>n_iters = 1, n_hist = 1, n_reset = 2, alpha_init = Flt 1\<rparr>" 2
      "Flt 1" "Flt 1" "Flt 0", OF unit_samples_half _ _ run_two_frames_reset]
  by (simp add: unit_samples_half run_two_frames_reset)

end
